theory Spec2Isabelle
  imports Complex_Main
begin

section \<open>Numbers of the Go program\<close>

subsection \<open>Machine integers\<close>

text \<open>
  Go's \<open>int\<close> is a signed 64-bit integer whose arithmetic wraps around. Values are kept
  as HOL integers and the wrap-around is written out with \<open>wrap64\<close> at every
  addition, subtraction and negation on ratios and pauses. The three counters of the
  tuner only ever grow by one and are left unbounded.
\<close>

definition wrap64 :: "int \<Rightarrow> int" where
  "wrap64 x = (x + 2 ^ 63) mod 2 ^ 64 - 2 ^ 63"

definition in_int64 :: "int \<Rightarrow> bool" where
  "in_int64 x = (- (2 ^ 63) \<le> x \<and> x < 2 ^ 63)"

text \<open>\<open>func abs(x int) int\<close>: \<open>-x\<close> wraps, so the least integer is its own negation.\<close>

definition abs_go :: "int \<Rightarrow> int" where
  "abs_go x = (if x < 0 then wrap64 (- x) else x)"

subsection \<open>Floating point\<close>

text \<open>
  A \<open>float64\<close> is a finite value, an infinity or a NaN. Finite arithmetic is exact
  arithmetic on the reals: rounding and overflow of finite results are not modelled.
  The special values follow IEEE 754. Zeros carry no sign; every zero the program
  divides by comes from the conversion of an integer, which is \<open>+0\<close>, so a division
  by zero takes the sign of its numerator.
\<close>

datatype f64 = Finite real | PosInf | NegInf | NaN

fun f64_neg :: "f64 \<Rightarrow> f64" where
  "f64_neg (Finite a) = Finite (- a)"
| "f64_neg PosInf = NegInf"
| "f64_neg NegInf = PosInf"
| "f64_neg NaN = NaN"

fun f64_add :: "f64 \<Rightarrow> f64 \<Rightarrow> f64" where
  "f64_add (Finite a) (Finite b) = Finite (a + b)"
| "f64_add NaN _ = NaN"
| "f64_add _ NaN = NaN"
| "f64_add PosInf NegInf = NaN"
| "f64_add NegInf PosInf = NaN"
| "f64_add PosInf _ = PosInf"
| "f64_add _ PosInf = PosInf"
| "f64_add NegInf _ = NegInf"
| "f64_add _ NegInf = NegInf"

definition f64_sub :: "f64 \<Rightarrow> f64 \<Rightarrow> f64" where
  "f64_sub x y = f64_add x (f64_neg y)"

text \<open>The infinity whose sign is that of the real \<open>s\<close>; NaN when \<open>s\<close> is zero.\<close>

definition inf_of_sign :: "real \<Rightarrow> f64" where
  "inf_of_sign s = (if s = 0 then NaN else if 0 < s then PosInf else NegInf)"

fun f64_mul :: "f64 \<Rightarrow> f64 \<Rightarrow> f64" where
  "f64_mul (Finite a) (Finite b) = Finite (a * b)"
| "f64_mul NaN _ = NaN"
| "f64_mul _ NaN = NaN"
| "f64_mul (Finite a) PosInf = inf_of_sign a"
| "f64_mul (Finite a) NegInf = inf_of_sign (- a)"
| "f64_mul PosInf (Finite b) = inf_of_sign b"
| "f64_mul NegInf (Finite b) = inf_of_sign (- b)"
| "f64_mul PosInf PosInf = PosInf"
| "f64_mul NegInf NegInf = PosInf"
| "f64_mul PosInf NegInf = NegInf"
| "f64_mul NegInf PosInf = NegInf"

fun f64_div :: "f64 \<Rightarrow> f64 \<Rightarrow> f64" where
  "f64_div (Finite a) (Finite b) = (if b = 0 then inf_of_sign a else Finite (a / b))"
| "f64_div NaN _ = NaN"
| "f64_div _ NaN = NaN"
| "f64_div (Finite a) PosInf = Finite 0"
| "f64_div (Finite a) NegInf = Finite 0"
| "f64_div PosInf (Finite b) = (if b < 0 then NegInf else PosInf)"
| "f64_div NegInf (Finite b) = (if b < 0 then PosInf else NegInf)"
| "f64_div PosInf PosInf = NaN"
| "f64_div NegInf NegInf = NaN"
| "f64_div PosInf NegInf = NaN"
| "f64_div NegInf PosInf = NaN"

text \<open>Comparisons: every comparison with a NaN is false.\<close>

fun f64_less :: "f64 \<Rightarrow> f64 \<Rightarrow> bool" where
  "f64_less (Finite a) (Finite b) = (a < b)"
| "f64_less NaN _ = False"
| "f64_less _ NaN = False"
| "f64_less (Finite a) PosInf = True"
| "f64_less (Finite a) NegInf = False"
| "f64_less PosInf _ = False"
| "f64_less NegInf (Finite b) = True"
| "f64_less NegInf PosInf = True"
| "f64_less NegInf NegInf = False"

definition f64_greater :: "f64 \<Rightarrow> f64 \<Rightarrow> bool" where
  "f64_greater x y = f64_less y x"

fun f64_eq :: "f64 \<Rightarrow> f64 \<Rightarrow> bool" where
  "f64_eq (Finite a) (Finite b) = (a = b)"
| "f64_eq PosInf PosInf = True"
| "f64_eq NegInf NegInf = True"
| "f64_eq _ _ = False"

definition f64_le :: "f64 \<Rightarrow> f64 \<Rightarrow> bool" where
  "f64_le x y = (f64_less x y \<or> f64_eq x y)"

fun f64_sqrt :: "f64 \<Rightarrow> f64" where
  "f64_sqrt (Finite a) = (if a < 0 then NaN else Finite (sqrt a))"
| "f64_sqrt PosInf = PosInf"
| "f64_sqrt NegInf = NaN"
| "f64_sqrt NaN = NaN"

text \<open>\<open>float64(i)\<close> for an integer \<open>i\<close>.\<close>

definition f64_of_int :: "int \<Rightarrow> f64" where
  "f64_of_int i = Finite (of_int i)"

text \<open>
  \<open>int(x)\<close> and \<open>uint64(x)\<close> for a \<open>float64\<close>: the fraction is discarded (truncation
  towards zero). When the value does not fit the target type (too large, an infinity,
  a NaN) Go leaves the result to the implementation; the function \<open>conv\<close> stands for
  that choice and is a parameter of every function that converts.
\<close>

definition trunc_zero :: "real \<Rightarrow> int" where
  "trunc_zero r = (if 0 \<le> r then \<lfloor>r\<rfloor> else \<lceil>r\<rceil>)"

definition int_of_f64 :: "(f64 \<Rightarrow> int) \<Rightarrow> f64 \<Rightarrow> int" where
  "int_of_f64 conv x =
     (case x of
        Finite r \<Rightarrow> if in_int64 (trunc_zero r) then trunc_zero r else wrap64 (conv x)
      | _ \<Rightarrow> wrap64 (conv x))"

definition uint64_of_f64 :: "(f64 \<Rightarrow> int) \<Rightarrow> f64 \<Rightarrow> nat" where
  "uint64_of_f64 conv x =
     (case x of
        Finite r \<Rightarrow> if 0 \<le> trunc_zero r \<and> trunc_zero r < 2 ^ 64 then nat (trunc_zero r)
                    else nat (conv x mod 2 ^ 64)
      | _ \<Rightarrow> nat (conv x mod 2 ^ 64))"

section \<open>Data model\<close>

text \<open>
  Durations (\<open>time.Duration\<close>) and instants (\<open>time.Time\<close>) are integers counting
  nanoseconds. The logger and the two callbacks are left out of the records: they are
  the caller's code and the tuner never reads anything back from them.
\<close>

definition Second :: int where
  "Second = 1000000000"

definition Millisecond :: int where
  "Millisecond = 1000000"

definition Minute :: int where
  "Minute = 60 * Second"

record Config =
  MonitorInterval :: int
  MinGOGC :: int
  MaxGOGC :: int
  TargetLatency :: int
  MemoryLimitPercent :: f64
  TuningAggressiveness :: f64
  StabilizationWindow :: int
  MaxChangePerInterval :: int

definition DefaultConfig :: Config where
  "DefaultConfig =
     \<lparr> MonitorInterval = 30 * Second,
       MinGOGC = 50,
       MaxGOGC = 800,
       TargetLatency = 10 * Millisecond,
       MemoryLimitPercent = Finite 0.8,
       TuningAggressiveness = Finite 0.3,
       StabilizationWindow = 5 * Minute,
       MaxChangePerInterval = 50 \<rparr>"

text \<open>\<open>validateConfig\<close>: \<open>None\<close> is the nil error, \<open>Some msg\<close> the error returned.\<close>

definition validateConfig :: "Config \<Rightarrow> string option" where
  "validateConfig config =
     (if MonitorInterval config < Second then
        Some ''monitor interval must be at least 1 second''
      else if MinGOGC config < 10 \<or> MinGOGC config > 1000 then
        Some ''min GOGC must be between 10 and 1000''
      else if MaxGOGC config < MinGOGC config \<or> MaxGOGC config > 2000 then
        Some ''max GOGC must be between min GOGC and 2000''
      else if f64_less (TuningAggressiveness config) (Finite 0.1)
            \<or> f64_greater (TuningAggressiveness config) (Finite 2.0) then
        Some ''tuning aggressiveness must be between 0.1 and 2.0''
      else if f64_less (MemoryLimitPercent config) (Finite 0.1)
            \<or> f64_greater (MemoryLimitPercent config) (Finite 1.0) then
        Some ''memory limit percent must be between 0.1 and 1.0''
      else None)"

section \<open>Container resource detection\<close>

text \<open>
  What the prober can observe of the operating system: the files \<open>os.ReadFile\<close> can
  read (with their content), the paths \<open>os.Stat\<close> finds, the process identifier and
  the environment (\<open>os.Getenv\<close> gives the empty string for an unset variable).
\<close>

record OS =
  files :: "string \<rightharpoonup> string"
  exists :: "string \<Rightarrow> bool"
  pid :: int
  environ :: "string \<Rightarrow> string"

text \<open>
  Two functions of the Go library are parameters: \<open>strconv.ParseFloat\<close> (\<open>None\<close> when
  it returns an error) and \<open>filepath.Join\<close>.
\<close>

record GoLib =
  ParseFloat :: "string \<Rightarrow> f64 option"
  Join :: "string list \<Rightarrow> string"

text \<open>
  Go's error values: one made by \<open>fmt.Errorf\<close> with its message, the failure of
  \<open>os.ReadFile\<close> on a path, the failure of a \<open>strconv\<close> function on a text.
\<close>

datatype error = Error string | PathError string | NumError string

text \<open>
  The fields \<open>MemoryLimit\<close> and \<open>CPULimit\<close> of the Go struct are named
  \<open>ResMemoryLimit\<close> and \<open>ResCPULimit\<close> here, since \<open>Metrics\<close> has a field
  \<open>MemoryLimit\<close> of its own.
\<close>

record ContainerResources =
  ResMemoryLimit :: nat
  ResCPULimit :: f64
  IsContainer :: bool

subsection \<open>String functions of the Go library\<close>

text \<open>
  White space is the ASCII white space (space, tab, line feed, vertical tab, form feed,
  carriage return); the other Unicode spaces that \<open>strings.TrimSpace\<close> and
  \<open>strings.Fields\<close> know are not modelled.
\<close>

definition isSpace :: "char \<Rightarrow> bool" where
  "isSpace c = (c \<in> {CHR 0x20, CHR 0x09, CHR 0x0A, CHR 0x0B, CHR 0x0C, CHR 0x0D})"

definition HasPrefix :: "string \<Rightarrow> string \<Rightarrow> bool" where
  "HasPrefix s pre = (take (length pre) s = pre)"

fun Contains :: "string \<Rightarrow> string \<Rightarrow> bool" where
  "Contains [] sub = (sub = [])"
| "Contains (c # cs) sub = (HasPrefix (c # cs) sub \<or> Contains cs sub)"

definition TrimSpace :: "string \<Rightarrow> string" where
  "TrimSpace s = rev (dropWhile isSpace (rev (dropWhile isSpace s)))"

fun fields_from :: "string \<Rightarrow> string \<Rightarrow> string list" where
  "fields_from cur [] = (if cur = [] then [] else [cur])"
| "fields_from cur (c # cs) =
     (if isSpace c then (if cur = [] then fields_from [] cs else cur # fields_from [] cs)
      else fields_from (cur @ [c]) cs)"

definition Fields :: "string \<Rightarrow> string list" where
  "Fields s = fields_from [] s"

text \<open>\<open>strings.Split\<close> with a separator of one character.\<close>

fun split_from :: "char \<Rightarrow> string \<Rightarrow> string \<Rightarrow> string list" where
  "split_from sep cur [] = [cur]"
| "split_from sep cur (c # cs) =
     (if c = sep then cur # split_from sep [] cs else split_from sep (cur @ [c]) cs)"

definition Split :: "string \<Rightarrow> char \<Rightarrow> string list" where
  "Split s sep = split_from sep [] s"

text \<open>
  The lines a \<open>bufio.Scanner\<close> yields: split at line feeds, one trailing carriage return
  dropped, a last line without line feed kept when it is not empty. The scanner's bound
  on the length of a line is not modelled.
\<close>

definition dropCR :: "string \<Rightarrow> string" where
  "dropCR l = (if l \<noteq> [] \<and> last l = CHR 0x0D then butlast l else l)"

fun lines_from :: "string \<Rightarrow> string \<Rightarrow> string list" where
  "lines_from cur [] = (if cur = [] then [] else [dropCR cur])"
| "lines_from cur (c # cs) =
     (if c = CHR 0x0A then dropCR cur # lines_from [] cs else lines_from (cur @ [c]) cs)"

definition ScanLines :: "string \<Rightarrow> string list" where
  "ScanLines s = lines_from [] s"

text \<open>\<open>strconv.ParseUint(s, 10, 64)\<close>: decimal digits only, at least one, below \<open>2^64\<close>.\<close>

definition isDigit :: "char \<Rightarrow> bool" where
  "isDigit c = (48 \<le> (of_char c :: nat) \<and> (of_char c :: nat) \<le> 57)"

definition digits_value :: "string \<Rightarrow> nat" where
  "digits_value s = foldl (\<lambda>acc c. acc * 10 + (of_char c - 48)) 0 s"

definition ParseUint :: "string \<Rightarrow> error + nat" where
  "ParseUint s =
     (if s = [] \<or> \<not> list_all isDigit s then Inl (NumError s)
      else if digits_value s < 2 ^ 64 then Inr (digits_value s)
      else Inl (NumError s))"

definition ReadFile :: "OS \<Rightarrow> string \<Rightarrow> error + string" where
  "ReadFile os path = (case files os path of None \<Rightarrow> Inl (PathError path) | Some d \<Rightarrow> Inr d)"

subsection \<open>The prober\<close>

definition isRunningInContainer :: "OS \<Rightarrow> bool" where
  "isRunningInContainer os =
     (if exists os ''/.dockerenv'' then True
      else if (case ReadFile os ''/proc/1/cgroup'' of
                 Inr content \<Rightarrow> Contains content ''docker'' \<or> Contains content ''kubepods''
                                \<or> Contains content ''containerd''
               | Inl _ \<Rightarrow> False) then True
      else if pid os = 1 then True
      else if environ os ''KUBERNETES_SERVICE_HOST'' \<noteq> [] then True
      else False)"

fun readCgroupV2MemoryLimit_paths :: "OS \<Rightarrow> string list \<Rightarrow> error + nat" where
  "readCgroupV2MemoryLimit_paths os [] = Inl (Error ''cgroup v2 memory limit not found'')"
| "readCgroupV2MemoryLimit_paths os (path # rest) =
     (case ReadFile os path of
        Inl _ \<Rightarrow> readCgroupV2MemoryLimit_paths os rest
      | Inr data \<Rightarrow>
          (let content = TrimSpace data in
           if content = ''max'' then readCgroupV2MemoryLimit_paths os rest
           else (case ParseUint content of
                   Inr limit \<Rightarrow>
                     if limit < 2 ^ 63 \<and> limit > 0 then Inr limit
                     else readCgroupV2MemoryLimit_paths os rest
                 | Inl _ \<Rightarrow> readCgroupV2MemoryLimit_paths os rest)))"

definition readCgroupV2MemoryLimit :: "OS \<Rightarrow> error + nat" where
  "readCgroupV2MemoryLimit os =
     readCgroupV2MemoryLimit_paths os
       [''/sys/fs/cgroup/memory.max'', ''/sys/fs/cgroup/memory/memory.limit_in_bytes'']"

text \<open>The first loop of \<open>findCgroupPath\<close>: the mount point of the first cgroup mount.\<close>

fun find_cgroupRoot :: "string list \<Rightarrow> string" where
  "find_cgroupRoot [] = []"
| "find_cgroupRoot (line # rest) =
     (let fields = Fields line in
      if length fields \<ge> 3 \<and> fields ! 2 = ''cgroup'' then fields ! 1
      else find_cgroupRoot rest)"

text \<open>The second loop: the first line of \<open>/proc/self/cgroup\<close> that lists the subsystem.\<close>

fun find_subsystem_line :: "string \<Rightarrow> string list \<Rightarrow> string option" where
  "find_subsystem_line subsystem [] = None"
| "find_subsystem_line subsystem (line # rest) =
     (let fields = Split line (CHR '':'') in
      if length fields \<ge> 3 \<and> subsystem \<in> set (Split (fields ! 1) (CHR '','')) then Some (fields ! 2)
      else find_subsystem_line subsystem rest)"

definition findCgroupPath :: "GoLib \<Rightarrow> OS \<Rightarrow> string \<Rightarrow> error + string" where
  "findCgroupPath lib os subsystem =
     (case ReadFile os ''/proc/mounts'' of
        Inl err \<Rightarrow> Inl err
      | Inr mountData \<Rightarrow>
          (let cgroupRoot = find_cgroupRoot (ScanLines mountData) in
           if cgroupRoot = [] then Inl (Error ''cgroup mount point not found'')
           else (case ReadFile os ''/proc/self/cgroup'' of
                   Inl err \<Rightarrow> Inl err
                 | Inr cgroupData \<Rightarrow>
                     (case find_subsystem_line subsystem (ScanLines cgroupData) of
                        Some p \<Rightarrow> Inr (Join lib [cgroupRoot, subsystem, p])
                      | None \<Rightarrow> Inl (Error (''cgroup path for '' @ subsystem @ '' not found''))))))"

definition readCgroupV1MemoryLimit :: "GoLib \<Rightarrow> OS \<Rightarrow> error + nat" where
  "readCgroupV1MemoryLimit lib os =
     (case findCgroupPath lib os ''memory'' of
        Inl err \<Rightarrow> Inl err
      | Inr cgroupPath \<Rightarrow>
          (case ReadFile os (Join lib [cgroupPath, ''memory.limit_in_bytes'']) of
             Inl err \<Rightarrow> Inl err
           | Inr data \<Rightarrow>
               (case ParseUint (TrimSpace data) of
                  Inl err \<Rightarrow> Inl err
                | Inr limit \<Rightarrow>
                    if limit \<ge> 2 ^ 63 \<or> limit = 0 then Inl (Error ''no memory limit set'')
                    else Inr limit)))"

fun readProcMemInfo_lines :: "string list \<Rightarrow> error + nat" where
  "readProcMemInfo_lines [] = Inl (Error ''MemTotal not found in /proc/meminfo'')"
| "readProcMemInfo_lines (line # rest) =
     (if HasPrefix line ''MemTotal:'' \<and> length (Fields line) \<ge> 2 then
        (case ParseUint (Fields line ! 1) of
           Inr kb \<Rightarrow> Inr ((kb * 1024) mod 2 ^ 64)
         | Inl _ \<Rightarrow> readProcMemInfo_lines rest)
      else readProcMemInfo_lines rest)"

definition readProcMemInfo :: "OS \<Rightarrow> error + nat" where
  "readProcMemInfo os =
     (case ReadFile os ''/proc/meminfo'' of
        Inl err \<Rightarrow> Inl err
      | Inr data \<Rightarrow> readProcMemInfo_lines (ScanLines data))"

definition detectMemoryLimit :: "GoLib \<Rightarrow> OS \<Rightarrow> error + nat" where
  "detectMemoryLimit lib os =
     (case readCgroupV2MemoryLimit os of
        Inr limit \<Rightarrow> Inr limit
      | Inl _ \<Rightarrow>
          (case readCgroupV1MemoryLimit lib os of
             Inr limit \<Rightarrow> Inr limit
           | Inl _ \<Rightarrow>
               (case readProcMemInfo os of
                  Inr limit \<Rightarrow> Inr limit
                | Inl _ \<Rightarrow> Inl (Error ''unable to detect memory limit''))))"

definition readCgroupV2CPULimit :: "GoLib \<Rightarrow> OS \<Rightarrow> error + f64" where
  "readCgroupV2CPULimit lib os =
     (case ReadFile os ''/sys/fs/cgroup/cpu.max'' of
        Inl _ \<Rightarrow> Inl (Error ''cgroup v2 CPU limit not found'')
      | Inr data \<Rightarrow>
          (let content = TrimSpace data in
           if content = ''max'' then Inl (Error ''no CPU limit set'')
           else (let fields = Fields content in
                 if length fields \<ge> 2 then
                   (case (ParseFloat lib (fields ! 0), ParseFloat lib (fields ! 1)) of
                      (Some quota, Some period) \<Rightarrow>
                        if f64_greater period (Finite 0) then Inr (f64_div quota period)
                        else Inl (Error ''cgroup v2 CPU limit not found'')
                    | _ \<Rightarrow> Inl (Error ''cgroup v2 CPU limit not found''))
                 else Inl (Error ''cgroup v2 CPU limit not found''))))"

definition readCgroupV1CPULimit :: "GoLib \<Rightarrow> OS \<Rightarrow> error + f64" where
  "readCgroupV1CPULimit lib os =
     (case findCgroupPath lib os ''cpu'' of
        Inl err \<Rightarrow> Inl err
      | Inr cgroupPath \<Rightarrow>
          (case ReadFile os (Join lib [cgroupPath, ''cpu.cfs_quota_us'']) of
             Inl err \<Rightarrow> Inl err
           | Inr quotaData \<Rightarrow>
               (case ReadFile os (Join lib [cgroupPath, ''cpu.cfs_period_us'']) of
                  Inl err \<Rightarrow> Inl err
                | Inr periodData \<Rightarrow>
                    (case ParseFloat lib (TrimSpace quotaData) of
                       None \<Rightarrow> Inl (NumError (TrimSpace quotaData))
                     | Some quota \<Rightarrow>
                         (case ParseFloat lib (TrimSpace periodData) of
                            None \<Rightarrow> Inl (NumError (TrimSpace periodData))
                          | Some period \<Rightarrow>
                              if f64_le quota (Finite 0) \<or> f64_le period (Finite 0)
                              then Inl (Error ''no CPU limit set'')
                              else Inr (f64_div quota period))))))"

definition detectCPULimit :: "GoLib \<Rightarrow> OS \<Rightarrow> error + f64" where
  "detectCPULimit lib os =
     (case readCgroupV2CPULimit lib os of
        Inr limit \<Rightarrow> Inr limit
      | Inl _ \<Rightarrow>
          (case readCgroupV1CPULimit lib os of
             Inr limit \<Rightarrow> Inr limit
           | Inl _ \<Rightarrow> Inl (Error ''unable to detect CPU limit'')))"

text \<open>
  \<open>DetectContainerResources\<close> returns the pair of Go: the resources and the error
  (\<open>None\<close> is nil).
\<close>

definition DetectContainerResources :: "GoLib \<Rightarrow> OS \<Rightarrow> ContainerResources \<times> error option" where
  "DetectContainerResources lib os =
     (let resources = \<lparr> ResMemoryLimit = 0, ResCPULimit = Finite 0, IsContainer = False \<rparr> in
      if isRunningInContainer os then
        (let resources1 = resources \<lparr> IsContainer := True \<rparr>;
             resources2 = (case detectMemoryLimit lib os of
                             Inr memLimit \<Rightarrow> resources1 \<lparr> ResMemoryLimit := memLimit \<rparr>
                           | Inl _ \<Rightarrow> resources1);
             resources3 = (case detectCPULimit lib os of
                             Inr cpuLimit \<Rightarrow> resources2 \<lparr> ResCPULimit := cpuLimit \<rparr>
                           | Inl _ \<Rightarrow> resources2)
         in (resources3, None))
      else (resources, None))"

section \<open>The tuner\<close>

subsection \<open>Records\<close>

record Metrics =
  GCPauseTime :: int
  GCFrequency :: f64
  HeapSize :: nat
  HeapAlloc :: nat
  HeapInuse :: nat
  NextGC :: nat
  LastGC :: int
  NumGC :: nat
  MemoryLimit :: nat
  MemoryUsage :: nat
  MemoryPressure :: f64
  CPUUsage :: f64
  Throughput :: f64
  ContainerMemLimit :: nat
  ContainerCPULimit :: f64
  CurrentGOGC :: int
  Timestamp :: int

text \<open>The zero value \<open>Metrics{}\<close>.\<close>

definition zeroMetrics :: Metrics where
  "zeroMetrics =
     \<lparr> GCPauseTime = 0, GCFrequency = Finite 0, HeapSize = 0, HeapAlloc = 0, HeapInuse = 0,
       NextGC = 0, LastGC = 0, NumGC = 0, MemoryLimit = 0, MemoryUsage = 0,
       MemoryPressure = Finite 0, CPUUsage = Finite 0, Throughput = Finite 0,
       ContainerMemLimit = 0, ContainerCPULimit = Finite 0, CurrentGOGC = 0, Timestamp = 0 \<rparr>"

text \<open>
  A decision. The fields \<open>Timestamp\<close> and \<open>Metrics\<close> of the Go struct are named
  \<open>DecisionTimestamp\<close> and \<open>DecisionMetrics\<close> here; the field \<open>Reason\<close>, a text
  formatted for the log, is left out.
\<close>

record TuningDecision =
  OldGOGC :: int
  NewGOGC :: int
  Confidence :: f64
  DecisionTimestamp :: int
  DecisionMetrics :: Metrics

record Tuner =
  config :: Config
  running :: bool
  metricsHistory :: "Metrics list"
  maxHistory :: nat
  decisionHistory :: "TuningDecision list"
  maxDecisions :: nat
  containerResources :: "ContainerResources option"
  lastGOGC :: int
  stabilityCount :: int
  totalDecisions :: int
  successfulTunes :: int
  revertedTunes :: int
  avgImprovement :: f64

subsection \<open>The Go runtime\<close>

text \<open>
  The state of the runtime that the tuner changes is the collector's target percentage.
  \<open>debug.SetGCPercent\<close> belongs to the Go runtime: it stores the percentage it is given
  and returns the previous setting; a negative percentage turns the collector off and is
  stored as \<open>-1\<close>. \<open>NewTuner\<close> relies on exactly this: it calls \<open>SetGCPercent(-1)\<close> to
  learn the setting and calls it again with the result to restore it.
\<close>

record Runtime =
  gcPercent :: int

definition SetGCPercent :: "int \<Rightarrow> Runtime \<Rightarrow> int \<times> Runtime" where
  "SetGCPercent percent rt =
     (gcPercent rt, rt \<lparr> gcPercent := (if percent < 0 then - 1 else percent) \<rparr>)"

text \<open>
  What one tick reads from the runtime and the clock: the fields of
  \<open>runtime.MemStats\<close> that are used, the pause history of \<open>debug.GCStats\<close> (most recent
  first) and the three readings of \<open>time.Now()\<close>, in \<open>collectMetrics\<close>, in
  \<open>shouldSkipDueToOscillation\<close> and in \<open>makeTuningDecision\<close>.
\<close>

record MemStats =
  msHeapSys :: nat
  msHeapAlloc :: nat
  msHeapInuse :: nat
  msNextGC :: nat
  msNumGC :: nat

record Probe =
  memStats :: MemStats
  Pause :: "int list"
  clock :: int
  clockGuard :: int
  clockDecision :: int

subsection \<open>Construction and readers\<close>

definition NewTuner :: "GoLib \<Rightarrow> OS \<Rightarrow> Config option \<Rightarrow> Runtime \<Rightarrow> (error + Tuner) \<times> Runtime" where
  "NewTuner lib os cfg rt =
     (let config0 = (case cfg of None \<Rightarrow> DefaultConfig | Some c \<Rightarrow> c) in
      case validateConfig config0 of
        Some msg \<Rightarrow> (Inl (Error (''invalid config: '' @ msg)), rt)
      | None \<Rightarrow>
          (let (resources, err) = DetectContainerResources lib os;
               (current, rt1) = SetGCPercent (- 1) rt;
               tuner = \<lparr> config = config0, running = False, metricsHistory = [],
                         maxHistory = 100, decisionHistory = [], maxDecisions = 50,
                         containerResources = Some resources, lastGOGC = current,
                         stabilityCount = 0, totalDecisions = 0, successfulTunes = 0,
                         revertedTunes = 0, avgImprovement = Finite 0 \<rparr>;
               (_, rt2) = SetGCPercent (lastGOGC tuner) rt1
           in (Inr tuner, rt2)))"

text \<open>The map returned by \<open>GetStats\<close>, one field for each key.\<close>

record Stats =
  total_decisions :: int
  successful_tunes :: int
  reverted_tunes :: int
  avg_improvement :: f64
  current_gogc :: int
  stability_count :: int
  metrics_history :: nat
  decision_history :: nat
  running_flag :: bool

definition GetStats :: "Tuner \<Rightarrow> Runtime \<Rightarrow> Stats \<times> Runtime" where
  "GetStats t rt =
     (let (current, rt1) = SetGCPercent (- 1) rt in
      (\<lparr> total_decisions = totalDecisions t,
         successful_tunes = successfulTunes t,
         reverted_tunes = revertedTunes t,
         avg_improvement = avgImprovement t,
         current_gogc = current,
         stability_count = stabilityCount t,
         metrics_history = length (metricsHistory t),
         decision_history = length (decisionHistory t),
         running_flag = running t \<rparr>, rt1))"

subsection \<open>Metrics collection\<close>

text \<open>Go's integer division truncates towards zero.\<close>

definition tdiv :: "int \<Rightarrow> int \<Rightarrow> int" where
  "tdiv a b = (if (a < 0) = (b < 0) then \<bar>a\<bar> div \<bar>b\<bar> else - (\<bar>a\<bar> div \<bar>b\<bar>))"

text \<open>
  \<open>Duration.Seconds()\<close>. The difference of two instants is their plain difference;
  the saturation of \<open>Time.Sub\<close> at the ends of the range of durations is not modelled.
\<close>

definition Seconds :: "int \<Rightarrow> f64" where
  "Seconds d = Finite (of_int d / 1000000000)"

definition collectMetrics :: "(f64 \<Rightarrow> int) \<Rightarrow> Tuner \<Rightarrow> Probe \<Rightarrow> Runtime \<Rightarrow> Metrics \<times> Runtime" where
  "collectMetrics conv t probe rt =
     (let m = memStats probe;
          (current, rt1) = SetGCPercent (- 1) rt;
          metrics0 = zeroMetrics \<lparr> HeapSize := msHeapSys m, HeapAlloc := msHeapAlloc m,
                                   HeapInuse := msHeapInuse m, NextGC := msNextGC m,
                                   NumGC := msNumGC m, CurrentGOGC := current,
                                   Timestamp := clock probe \<rparr>;
          metrics1 =
            (if length (Pause probe) > 0 then
               (let count = (if length (Pause probe) > 10 then 10 else length (Pause probe));
                    totalPause = foldl (\<lambda>acc p. wrap64 (acc + p)) 0 (take count (Pause probe))
                in metrics0 \<lparr> GCPauseTime := tdiv totalPause (int count) \<rparr>)
             else metrics0);
          metrics2 =
            (if length (metricsHistory t) > 0 then
               (let prev = last (metricsHistory t);
                    timeDiff = Seconds (Timestamp metrics1 - Timestamp prev)
                in if f64_greater timeDiff (Finite 0) then
                     (let gcDiff = f64_of_int ((int (NumGC metrics1) - int (NumGC prev)) mod 2 ^ 32)
                      in metrics1 \<lparr> GCFrequency := f64_div gcDiff timeDiff \<rparr>)
                   else metrics1)
             else metrics1);
          metrics3 =
            (case containerResources t of
               None \<Rightarrow> metrics2
             | Some res \<Rightarrow>
                 (let ma = metrics2 \<lparr> ContainerMemLimit := ResMemoryLimit res,
                                      ContainerCPULimit := ResCPULimit res \<rparr>
                  in if ResMemoryLimit res > 0 then
                       ma \<lparr> MemoryPressure :=
                              f64_div (f64_of_int (int (HeapInuse ma)))
                                      (f64_of_int (int (ResMemoryLimit res))) \<rparr>
                     else ma));
          metrics4 =
            (if ContainerMemLimit metrics3 > 0 then
               (let ma = metrics3 \<lparr> MemoryUsage := HeapInuse metrics3 \<rparr>;
                    mb = ma \<lparr> MemoryLimit :=
                                uint64_of_f64 conv
                                  (f64_mul (f64_of_int (int (ContainerMemLimit ma)))
                                           (MemoryLimitPercent (config t))) \<rparr>
                in mb \<lparr> MemoryPressure :=
                          f64_div (f64_of_int (int (MemoryUsage mb)))
                                  (f64_of_int (int (MemoryLimit mb))) \<rparr>)
             else metrics3)
      in (metrics4, rt1))"

definition GetMetrics :: "(f64 \<Rightarrow> int) \<Rightarrow> Tuner \<Rightarrow> Probe \<Rightarrow> Runtime \<Rightarrow> Metrics \<times> Runtime" where
  "GetMetrics conv t probe rt = collectMetrics conv t probe rt"

subsection \<open>Control law\<close>

text \<open>
  The three factors of \<open>calculateTargetGOGC\<close>, under the names of its local variables.
  Go evaluates \<open>x*y*z\<close> from the left.
\<close>

definition latencyFactor :: "Tuner \<Rightarrow> Metrics \<Rightarrow> f64" where
  "latencyFactor t metrics =
     (if GCPauseTime metrics > TargetLatency (config t) then
        (let ratio = f64_div (f64_of_int (GCPauseTime metrics))
                             (f64_of_int (TargetLatency (config t)))
         in f64_add (Finite 1.0)
              (f64_mul (f64_sub ratio (Finite 1.0)) (TuningAggressiveness (config t))))
      else
        (let ratio = f64_div (f64_of_int (TargetLatency (config t)))
                             (f64_of_int (GCPauseTime metrics))
         in f64_sub (Finite 1.0)
              (f64_mul (f64_mul (f64_sub ratio (Finite 1.0)) (TuningAggressiveness (config t)))
                       (Finite 0.5))))"

definition memoryFactor :: "Tuner \<Rightarrow> Metrics \<Rightarrow> f64" where
  "memoryFactor t metrics =
     (if f64_greater (MemoryPressure metrics) (Finite 0.8) then
        f64_sub (Finite 1.0)
          (f64_mul (f64_mul (f64_sub (MemoryPressure metrics) (Finite 0.8)) (Finite 2.0))
                   (TuningAggressiveness (config t)))
      else if f64_less (MemoryPressure metrics) (Finite 0.4) then
        f64_add (Finite 1.0)
          (f64_mul (f64_mul (f64_sub (Finite 0.4) (MemoryPressure metrics)) (Finite 1.5))
                   (TuningAggressiveness (config t)))
      else Finite 1.0)"

definition frequencyFactor :: "Tuner \<Rightarrow> Metrics \<Rightarrow> f64" where
  "frequencyFactor t metrics =
     (if f64_greater (GCFrequency metrics) (Finite 2.0) then
        f64_add (Finite 1.0)
          (f64_mul (f64_mul (f64_sub (GCFrequency metrics) (Finite 2.0)) (Finite 0.1))
                   (TuningAggressiveness (config t)))
      else if f64_less (GCFrequency metrics) (Finite 0.1) then
        f64_sub (Finite 1.0)
          (f64_mul (f64_mul (f64_sub (Finite 0.1) (GCFrequency metrics)) (Finite 0.5))
                   (TuningAggressiveness (config t)))
      else Finite 1.0)"

definition calculateTargetGOGC :: "(f64 \<Rightarrow> int) \<Rightarrow> Tuner \<Rightarrow> Metrics \<Rightarrow> int" where
  "calculateTargetGOGC conv t metrics =
     (let currentGOGC = CurrentGOGC metrics;
          combinedFactor =
            f64_div (f64_add (f64_add (latencyFactor t metrics) (memoryFactor t metrics))
                             (frequencyFactor t metrics))
                    (Finite 3.0);
          alpha = Finite 0.3;
          smoothedFactor =
            f64_add (f64_mul alpha combinedFactor)
                    (f64_mul (f64_sub (Finite 1) alpha) (Finite 1.0))
      in int_of_f64 conv (f64_mul (f64_of_int currentGOGC) smoothedFactor))"

subsection \<open>Confidence\<close>

definition calculateVariation :: "Metrics list \<Rightarrow> (Metrics \<Rightarrow> f64) \<Rightarrow> f64" where
  "calculateVariation metrics extractor =
     (if length metrics < 2 then Finite 0
      else
        (let values = map extractor metrics;
             n = f64_of_int (int (length values));
             mean = f64_div (foldl f64_add (Finite 0.0) values) n
         in if f64_eq mean (Finite 0) then Finite 0
            else
              (let variance =
                     f64_div
                       (foldl (\<lambda>acc v. f64_add acc (f64_mul (f64_sub v mean) (f64_sub v mean)))
                              (Finite 0.0) values)
                       n;
                   stdDev = f64_sqrt variance
               in f64_div stdDev mean)))"

definition calculateConfidence :: "Tuner \<Rightarrow> Metrics \<Rightarrow> f64" where
  "calculateConfidence t metrics =
     (let confidence0 = Finite 1.0;
          confidence1 =
            (if length (metricsHistory t) < 5 then f64_mul confidence0 (Finite 0.7)
             else confidence0);
          confidence2 =
            (if length (metricsHistory t) \<ge> 3 then
               (let recent = drop (length (metricsHistory t) - 3) (metricsHistory t);
                    pauseVariation =
                      calculateVariation recent (\<lambda>m. f64_of_int (GCPauseTime m))
                in if f64_greater pauseVariation (Finite 0.3)
                   then f64_mul confidence1 (Finite 0.8) else confidence1)
             else confidence1);
          confidence3 =
            (if CurrentGOGC metrics \<le> wrap64 (MinGOGC (config t) + 20)
                \<or> CurrentGOGC metrics \<ge> wrap64 (MaxGOGC (config t) - 20)
             then f64_mul confidence2 (Finite 0.9) else confidence2);
          confidence4 =
            (if f64_greater (MemoryPressure metrics) (Finite 0.95)
                \<or> f64_less (MemoryPressure metrics) (Finite 0.05)
             then f64_mul confidence3 (Finite 0.8) else confidence3)
      in confidence4)"

subsection \<open>Oscillation guard\<close>

definition shouldSkipDueToOscillation :: "Tuner \<Rightarrow> int \<Rightarrow> bool" where
  "shouldSkipDueToOscillation t now =
     (if length (decisionHistory t) < 4 then False
      else
        (let recent = drop (length (decisionHistory t) - 4) (decisionHistory t);
             increaseCount = length (filter (\<lambda>d. NewGOGC d > OldGOGC d) recent);
             decreaseCount = length (filter (\<lambda>d. \<not> NewGOGC d > OldGOGC d) recent)
         in if increaseCount > 0 \<and> decreaseCount > 0 then
              (let oldestDecision = DecisionTimestamp (recent ! 0)
               in if now - oldestDecision < StabilizationWindow (config t) then True else False)
            else False))"

subsection \<open>Decision\<close>

text \<open>
  The two adjustments of the target in \<open>makeTuningDecision\<close>: the limit on the change
  of one interval, then the bounds.
\<close>

definition limitChange :: "Config \<Rightarrow> int \<Rightarrow> int \<Rightarrow> int \<Rightarrow> int" where
  "limitChange cfg currentGOGC change targetGOGC =
     (if abs_go change > MaxChangePerInterval cfg then
        (if change > 0 then wrap64 (currentGOGC + MaxChangePerInterval cfg)
         else wrap64 (currentGOGC - MaxChangePerInterval cfg))
      else targetGOGC)"

definition ensureBounds :: "Config \<Rightarrow> int \<Rightarrow> int" where
  "ensureBounds cfg targetGOGC =
     (let target1 = (if targetGOGC < MinGOGC cfg then MinGOGC cfg else targetGOGC)
      in if target1 > MaxGOGC cfg then MaxGOGC cfg else target1)"

text \<open>
  \<open>makeTuningDecision\<close> returns the decision (\<open>None\<close> is nil) and the tuner, whose
  stability counter it may have incremented. \<open>nowGuard\<close> and \<open>nowDecision\<close> are the
  readings of the clock by the oscillation guard and for the decision's timestamp.
\<close>

definition makeTuningDecision ::
  "(f64 \<Rightarrow> int) \<Rightarrow> Tuner \<Rightarrow> int \<Rightarrow> int \<Rightarrow> Metrics \<Rightarrow> TuningDecision option \<times> Tuner" where
  "makeTuningDecision conv t nowGuard nowDecision metrics =
     (let currentGOGC = CurrentGOGC metrics in
      if length (metricsHistory t) < 2 then (None, t)
      else if shouldSkipDueToOscillation t nowGuard then (None, t)
      else
        (let targetGOGC = calculateTargetGOGC conv t metrics;
             change = wrap64 (targetGOGC - currentGOGC)
         in if abs_go change < 10 then (None, t \<lparr> stabilityCount := stabilityCount t + 1 \<rparr>)
            else
              (let targetLimited = limitChange (config t) currentGOGC change targetGOGC;
                   targetBounded = ensureBounds (config t) targetLimited;
                   confidence = calculateConfidence t metrics
               in if f64_less confidence (Finite 0.6) then (None, t)
                  else (Some \<lparr> OldGOGC = currentGOGC, NewGOGC = targetBounded,
                               Confidence = confidence, DecisionTimestamp = nowDecision,
                               DecisionMetrics = metrics \<rparr>, t))))"

definition applyTuningDecision :: "Tuner \<Rightarrow> TuningDecision \<Rightarrow> Runtime \<Rightarrow> Tuner \<times> Runtime" where
  "applyTuningDecision t decision rt =
     (let (oldGOGC, rt1) = SetGCPercent (NewGOGC decision) rt;
          decision1 = decision \<lparr> OldGOGC := oldGOGC \<rparr>;
          appended = decisionHistory t @ [decision1];
          history = (if length appended > maxDecisions t then tl appended else appended)
      in (t \<lparr> decisionHistory := history,
               totalDecisions := totalDecisions t + 1,
               lastGOGC := NewGOGC decision1,
               stabilityCount := 0 \<rparr>, rt1))"

subsection \<open>The tuning cycle\<close>





section \<open>Example states\<close>

text \<open>
  Concrete values for evaluating the functions. On amd64 the conversion of a
  \<open>float64\<close> that does not fit yields the least 64-bit integer.
\<close>

definition conv_amd64 :: "f64 \<Rightarrow> int" where
  "conv_amd64 x = - (2 ^ 63)"

text \<open>
  A sample as the unit tests write it: a pause, a frequency of one collection a second,
  a memory pressure and the current percentage.
\<close>

definition sample :: "int \<Rightarrow> real \<Rightarrow> int \<Rightarrow> Metrics" where
  "sample pause pressure gogc =
     zeroMetrics \<lparr> GCPauseTime := pause, GCFrequency := Finite 1.0,
                   MemoryPressure := Finite pressure, CurrentGOGC := gogc \<rparr>"

text \<open>The tuner that \<open>NewTuner\<close> builds, with a history of samples put in.\<close>

definition tunerWith :: "Config \<Rightarrow> Metrics list \<Rightarrow> Tuner" where
  "tunerWith cfg history =
     \<lparr> config = cfg, running = False, metricsHistory = history, maxHistory = 100,
       decisionHistory = [], maxDecisions = 50,
       containerResources =
         Some \<lparr> ResMemoryLimit = 0, ResCPULimit = Finite 0, IsContainer = False \<rparr>,
       lastGOGC = 100, stabilityCount = 0, totalDecisions = 0, successfulTunes = 0,
       revertedTunes = 0, avgImprovement = Finite 0 \<rparr>"

text \<open>
  A host that shows none of the container signals and whose cgroup file reports a
  memory limit of one gibibyte.
\<close>

definition plainHost :: OS where
  "plainHost =
     \<lparr> files = [''/sys/fs/cgroup/memory.max'' \<mapsto> ''1073741824'' @ [CHR 0x0A],
                 ''/proc/1/cgroup'' \<mapsto> ''0::/init.scope'' @ [CHR 0x0A]],
       exists = (\<lambda>path. path \<in> {''/sys/fs/cgroup/memory.max'', ''/proc/1/cgroup''}),
       pid = 4242,
       environ = (\<lambda>name. []) \<rparr>"

definition plainLib :: GoLib where
  "plainLib =
     \<lparr> ParseFloat = (\<lambda>s. None),
       Join = (\<lambda>elems. foldr (\<lambda>e acc. if acc = [] then e else e @ ''/'' @ acc) elems []) \<rparr>"

text \<open>
  A sample whose pause is five times the default target of 10 ms, a tuner with the
  default configuration that has seen two of them, and what one tick reads on a quiet
  process.
\<close>

definition busySample :: "int \<Rightarrow> Metrics" where
  "busySample gogc = sample (50 * Millisecond) 0.5 gogc"

definition youngTuner :: Tuner where
  "youngTuner = tunerWith DefaultConfig [busySample 100, busySample 100]"


text \<open>The decision \<open>makeTuningDecision\<close> returns for a busy sample, given the new percentage.\<close>

definition busyDecision :: "int \<Rightarrow> int \<Rightarrow> real \<Rightarrow> TuningDecision" where
  "busyDecision old new conf =
     \<lparr> OldGOGC = old, NewGOGC = new, Confidence = Finite conf, DecisionTimestamp = 0,
       DecisionMetrics = busySample old \<rparr>"

section \<open>Invariant of the histories\<close>



section \<open>Properties\<close>

subsection \<open>Wrap-around\<close>

lemma wrap64_id: "in_int64 x \<Longrightarrow> wrap64 x = x"
  by (simp add: wrap64_def in_int64_def)

lemma wrap64_range: "in_int64 (wrap64 x)"
proof -
  have "0 \<le> (x + 2 ^ 63) mod (2 ^ 64 :: int)" "(x + 2 ^ 63) mod (2 ^ 64 :: int) < 2 ^ 64"
    by simp_all
  then show ?thesis
    by (simp add: wrap64_def in_int64_def)
qed

lemma wrap64_below: "- (2 ^ 63) - 2 ^ 64 \<le> x \<Longrightarrow> x < - (2 ^ 63) \<Longrightarrow> wrap64 x = x + 2 ^ 64"
proof -
  assume a: "- (2 ^ 63) - 2 ^ 64 \<le> x" "x < - (2 ^ 63)"
  have "(x + 2 ^ 63) mod (2 ^ 64 :: int) = (x + 2 ^ 63 + 2 ^ 64) mod 2 ^ 64"
    by (metis mod_add_self2)
  also have "\<dots> = x + 2 ^ 63 + 2 ^ 64"
    using a by (intro mod_pos_pos_trivial) auto
  finally show ?thesis
    by (simp add: wrap64_def)
qed

lemma wrap64_above: "2 ^ 63 \<le> x \<Longrightarrow> x < 2 ^ 63 + 2 ^ 64 \<Longrightarrow> wrap64 x = x - 2 ^ 64"
proof -
  assume a: "2 ^ 63 \<le> x" "x < 2 ^ 63 + 2 ^ 64"
  have "(x + 2 ^ 63) mod (2 ^ 64 :: int) = (x + 2 ^ 63 - 2 ^ 64) mod 2 ^ 64"
    by (metis minus_mod_self2)
  also have "\<dots> = x + 2 ^ 63 - 2 ^ 64"
    using a by (intro mod_pos_pos_trivial) auto
  finally show ?thesis
    by (simp add: wrap64_def)
qed

lemma int_of_f64_range: "in_int64 (int_of_f64 conv x)"
  by (cases x) (simp_all add: int_of_f64_def wrap64_range)

subsection \<open>Reading the collector's percentage\<close>

text \<open>
  Claim C1 says that reading the current ratio never changes it: after \<open>GetMetrics\<close>,
  \<open>GetStats\<close> or the collection of a tick the runtime's percentage is what it was
  before. The code reads it with \<open>debug.SetGCPercent(-1)\<close> and, unlike \<open>NewTuner\<close>, does
  not put the returned value back: with the percentage at 100, \<open>NewTuner\<close> leaves it at
  100, while each of the three readers leaves it at \<open>-1\<close>, the collector switched off.
\<close>

theorem readers_leave_gcPercent_off:
  "snd (NewTuner lib os None \<lparr> gcPercent = 100 \<rparr>) = \<lparr> gcPercent = 100 \<rparr>
   \<and> gcPercent (snd (GetStats t \<lparr> gcPercent = 100 \<rparr>)) = - 1
   \<and> gcPercent (snd (GetMetrics conv t probe \<lparr> gcPercent = 100 \<rparr>)) = - 1
   \<and> gcPercent (snd (collectMetrics conv t probe \<lparr> gcPercent = 100 \<rparr>)) = - 1"
  by (simp add: NewTuner_def GetStats_def GetMetrics_def collectMetrics_def SetGCPercent_def
      Let_def split_def validateConfig_def DefaultConfig_def Second_def Millisecond_def
      Minute_def f64_greater_def)

subsection \<open>Configuration validation\<close>

lemma validateConfig_bounds:
  "validateConfig cfg = None \<Longrightarrow>
     10 \<le> MinGOGC cfg \<and> MinGOGC cfg \<le> MaxGOGC cfg \<and> MaxGOGC cfg \<le> 2000"
  by (simp add: validateConfig_def split: if_splits)




subsection \<open>Container resource detection\<close>


lemma plainHost_memory_limit: "detectMemoryLimit plainLib plainHost = Inr 1073741824"
  by (simp add: detectMemoryLimit_def readCgroupV2MemoryLimit_def plainHost_def ReadFile_def
      TrimSpace_def isSpace_def ParseUint_def isDigit_def digits_value_def)

text \<open>
  Claim C9: \<open>DetectContainerResources\<close> never returns an error, whatever the files, the
  process identifier and the environment are. When none of the four container signals
  is present (no \<open>/.dockerenv\<close>, no \<open>docker\<close>, \<open>kubepods\<close> or \<open>containerd\<close> in a
  readable \<open>/proc/1/cgroup\<close>, a process identifier other than 1, no
  \<open>KUBERNETES_SERVICE_HOST\<close>) the result is the zero value: both limits are 0 whatever
  the limit files contain, since neither limit is resolved.
\<close>

theorem DetectContainerResources_never_fails:
  "snd (DetectContainerResources lib os) = None
   \<and> (\<not> exists os ''/.dockerenv''
      \<and> (\<forall>content. files os ''/proc/1/cgroup'' = Some content \<longrightarrow>
            \<not> Contains content ''docker'' \<and> \<not> Contains content ''kubepods''
            \<and> \<not> Contains content ''containerd'')
      \<and> pid os \<noteq> 1
      \<and> environ os ''KUBERNETES_SERVICE_HOST'' = []
      \<longrightarrow> fst (DetectContainerResources lib os)
            = \<lparr> ResMemoryLimit = 0, ResCPULimit = Finite 0, IsContainer = False \<rparr>)"
  by (auto simp: DetectContainerResources_def isRunningInContainer_def ReadFile_def Let_def
      split: option.splits)

text \<open>
  On \<open>plainHost\<close> the file \<open>/sys/fs/cgroup/memory.max\<close> reports one gibibyte, which
  \<open>detectMemoryLimit\<close> would find, and the prober returns a limit of 0 without error.
\<close>

theorem DetectContainerResources_never_fails_witness:
  "\<not> exists plainHost ''/.dockerenv''
   \<and> files plainHost ''/proc/1/cgroup'' = Some (''0::/init.scope'' @ [CHR 0x0A])
   \<and> \<not> Contains (''0::/init.scope'' @ [CHR 0x0A]) ''docker''
   \<and> \<not> Contains (''0::/init.scope'' @ [CHR 0x0A]) ''kubepods''
   \<and> \<not> Contains (''0::/init.scope'' @ [CHR 0x0A]) ''containerd''
   \<and> pid plainHost \<noteq> 1
   \<and> environ plainHost ''KUBERNETES_SERVICE_HOST'' = []
   \<and> detectMemoryLimit plainLib plainHost = Inr 1073741824
   \<and> DetectContainerResources plainLib plainHost
       = (\<lparr> ResMemoryLimit = 0, ResCPULimit = Finite 0, IsContainer = False \<rparr>, None)"
proof -
  have signals: "\<not> exists plainHost ''/.dockerenv''"
    "files plainHost ''/proc/1/cgroup'' = Some (''0::/init.scope'' @ [CHR 0x0A])"
    "\<not> Contains (''0::/init.scope'' @ [CHR 0x0A]) ''docker''"
    "\<not> Contains (''0::/init.scope'' @ [CHR 0x0A]) ''kubepods''"
    "\<not> Contains (''0::/init.scope'' @ [CHR 0x0A]) ''containerd''"
    "pid plainHost \<noteq> 1"
    "environ plainHost ''KUBERNETES_SERVICE_HOST'' = []"
    by (simp_all add: plainHost_def HasPrefix_def)
  with DetectContainerResources_never_fails [of plainLib plainHost]
  have "snd (DetectContainerResources plainLib plainHost) = None"
    "fst (DetectContainerResources plainLib plainHost)
       = \<lparr> ResMemoryLimit = 0, ResCPULimit = Finite 0, IsContainer = False \<rparr>"
    by simp_all
  then have "DetectContainerResources plainLib plainHost
       = (\<lparr> ResMemoryLimit = 0, ResCPULimit = Finite 0, IsContainer = False \<rparr>, None)"
    by (simp add: prod_eq_iff)
  with signals plainHost_memory_limit show ?thesis
    by simp
qed

subsection \<open>Control law\<close>

lemmas f64_defs = f64_sub_def f64_greater_def f64_le_def f64_of_int_def inf_of_sign_def

lemmas time_defs = Second_def Millisecond_def Minute_def

lemmas law_defs = calculateTargetGOGC_def latencyFactor_def memoryFactor_def
  frequencyFactor_def int_of_f64_def trunc_zero_def in_int64_def

lemmas fixture_defs = youngTuner_def busySample_def busyDecision_def tunerWith_def sample_def
  zeroMetrics_def DefaultConfig_def conv_amd64_def

lemmas decision_defs = shouldSkipDueToOscillation_def calculateConfidence_def abs_go_def
  wrap64_def limitChange_def ensureBounds_def

lemma calculateTargetGOGC_range: "in_int64 (calculateTargetGOGC conv t metrics)"
  by (simp add: calculateTargetGOGC_def Let_def int_of_f64_range)

text \<open>
  Claim C6: with an aggressiveness of 0.5, a target latency of 10 ms, a pause of 50 ms,
  a memory pressure of 0.5, one collection a second and a current ratio of 100, the
  latency factor is 3, the memory and frequency factors are 1 and the control law
  returns 120, which is more than 100. The other fields of the tuner and of the sample
  do not matter.
\<close>

theorem control_law_pause_scenario:
  fixes t :: Tuner and m :: Metrics
  defines "t' \<equiv> t \<lparr> config := (config t) \<lparr> TuningAggressiveness := Finite 0.5,
                                             TargetLatency := 10 * Millisecond \<rparr> \<rparr>"
    and "m' \<equiv> m \<lparr> GCPauseTime := 50 * Millisecond, MemoryPressure := Finite 0.5,
                   GCFrequency := Finite 1, CurrentGOGC := 100 \<rparr>"
  shows "latencyFactor t' m' = Finite 3 \<and> memoryFactor t' m' = Finite 1
       \<and> frequencyFactor t' m' = Finite 1
       \<and> calculateTargetGOGC conv t' m' = 120 \<and> 100 < calculateTargetGOGC conv t' m'"
proof -
  have factors: "latencyFactor t' m' = Finite 3" "memoryFactor t' m' = Finite 1"
    "frequencyFactor t' m' = Finite 1"
    by (simp_all add: t'_def m'_def latencyFactor_def memoryFactor_def frequencyFactor_def
        f64_defs time_defs Let_def)
  have smoothed: "f64_add (f64_mul (Finite 0.3) (f64_div (Finite (3 + 1 + 1)) (Finite 3.0)))
                    (f64_mul (f64_sub (Finite 1) (Finite 0.3)) (Finite 1.0)) = Finite 1.2"
    by (simp add: f64_defs)
  have "calculateTargetGOGC conv t' m' = int_of_f64 conv (f64_mul (f64_of_int 100) (Finite 1.2))"
    unfolding calculateTargetGOGC_def factors Let_def
    using smoothed by (simp add: m'_def)
  also have "\<dots> = 120"
    by (simp add: int_of_f64_def trunc_zero_def in_int64_def f64_defs)
  finally have "calculateTargetGOGC conv t' m' = 120" .
  with factors show ?thesis
    by simp
qed

text \<open>
  Claim C5 says that a pause of zero skips the branch that divides by the pause and
  leaves the latency factor at 1. The code has no such case: when the pause is not above
  the target it divides the target by the pause. For a sample without any pause the
  quotient is \<open>+Inf\<close> and the latency factor \<open>-Inf\<close>; the target is the conversion of
  \<open>-Inf\<close> to an integer, which Go leaves to the implementation. On amd64 this is the
  least integer, the subtraction of the current ratio wraps around to a positive change,
  and the decision raises the ratio by the full \<open>MaxChangePerInterval\<close>, from 100 to 150.
\<close>

theorem zero_pause_divides_by_zero:
  "GCPauseTime (sample 0 0.5 100) = 0
   \<and> latencyFactor youngTuner (sample 0 0.5 100) = NegInf
   \<and> calculateTargetGOGC conv youngTuner (sample 0 0.5 100) = wrap64 (conv NegInf)
   \<and> calculateTargetGOGC conv_amd64 youngTuner (sample 0 0.5 100) = - (2 ^ 63)
   \<and> fst (makeTuningDecision conv_amd64 youngTuner 0 0 (sample 0 0.5 100))
       = Some \<lparr> OldGOGC = 100, NewGOGC = 150, Confidence = Finite 0.7,
                DecisionTimestamp = 0, DecisionMetrics = sample 0 0.5 100 \<rparr>"
proof -
  have law: "latencyFactor youngTuner (sample 0 0.5 100) = NegInf"
    "calculateTargetGOGC conv youngTuner (sample 0 0.5 100) = wrap64 (conv NegInf)"
    by (simp_all add: law_defs f64_defs time_defs fixture_defs Let_def)
  have amd: "calculateTargetGOGC conv_amd64 youngTuner (sample 0 0.5 100) = - (2 ^ 63)"
    by (simp add: law_defs f64_defs time_defs fixture_defs Let_def wrap64_def)
  have "fst (makeTuningDecision conv_amd64 youngTuner 0 0 (sample 0 0.5 100))
       = Some \<lparr> OldGOGC = 100, NewGOGC = 150, Confidence = Finite 0.7,
                DecisionTimestamp = 0, DecisionMetrics = sample 0 0.5 100 \<rparr>"
    unfolding makeTuningDecision_def amd
    by (simp add: Let_def decision_defs fixture_defs f64_defs)
  with law amd show ?thesis
    by (simp add: sample_def)
qed

subsection \<open>Decisions\<close>

lemma makeTuningDecision_Some:
  assumes "makeTuningDecision conv t ng nd metrics = (Some d, t1)"
  shows "t1 = t"
    and "OldGOGC d = CurrentGOGC metrics"
    and "10 \<le> abs_go (wrap64 (calculateTargetGOGC conv t metrics - CurrentGOGC metrics))"
    and "NewGOGC d = ensureBounds (config t)
           (limitChange (config t) (CurrentGOGC metrics)
              (wrap64 (calculateTargetGOGC conv t metrics - CurrentGOGC metrics))
              (calculateTargetGOGC conv t metrics))"
    and "\<not> f64_less (calculateConfidence t metrics) (Finite 0.6)"
    and "2 \<le> length (metricsHistory t)"
  using assms by (auto simp: makeTuningDecision_def Let_def split: if_splits)

lemma ensureBounds_range:
  "MinGOGC cfg \<le> MaxGOGC cfg \<Longrightarrow>
     MinGOGC cfg \<le> ensureBounds cfg x \<and> ensureBounds cfg x \<le> MaxGOGC cfg"
  by (simp add: ensureBounds_def Let_def)

text \<open>The decisions of \<open>youngTuner\<close> for busy samples at three current ratios.\<close>

lemma youngTuner_valid: "validateConfig (config youngTuner) = None"
  by (simp add: validateConfig_def fixture_defs f64_defs time_defs)

lemma decision_at_100:
  "makeTuningDecision conv youngTuner 0 0 (busySample 100)
     = (Some (busyDecision 100 112 0.7), youngTuner)"
proof -
  have "calculateTargetGOGC conv youngTuner (busySample 100) = 112"
    by (simp add: law_defs f64_defs time_defs fixture_defs Let_def)
  then show ?thesis
    unfolding makeTuningDecision_def
    by (simp add: Let_def decision_defs fixture_defs f64_defs)
qed

lemma decision_at_795:
  "makeTuningDecision conv youngTuner 0 0 (busySample 795)
     = (Some (busyDecision 795 800 0.63), youngTuner)"
proof -
  have "calculateTargetGOGC conv youngTuner (busySample 795) = 890"
    by (simp add: law_defs f64_defs time_defs fixture_defs Let_def)
  then show ?thesis
    unfolding makeTuningDecision_def
    by (simp add: Let_def decision_defs fixture_defs f64_defs)
qed

lemma decision_at_1000:
  "makeTuningDecision conv youngTuner 0 0 (busySample 1000)
     = (Some (busyDecision 1000 800 0.63), youngTuner)"
proof -
  have "calculateTargetGOGC conv youngTuner (busySample 1000) = 1120"
    by (simp add: law_defs f64_defs time_defs fixture_defs Let_def)
  then show ?thesis
    unfolding makeTuningDecision_def
    by (simp add: Let_def decision_defs fixture_defs f64_defs)
qed

text \<open>
  Claim C4: with a configuration that \<open>validateConfig\<close> accepts, every decision that
  \<open>makeTuningDecision\<close> returns has its new ratio between \<open>MinGOGC\<close> and \<open>MaxGOGC\<close>,
  whatever the sample, the history and the current ratio are; \<open>applyTuningDecision\<close>
  sets the runtime's percentage to exactly that ratio and records it as \<open>lastGOGC\<close>.
\<close>

theorem emitted_decision_within_bounds:
  assumes valid: "validateConfig (config t) = None"
    and dec: "makeTuningDecision conv t nowGuard nowDecision metrics = (Some d, t1)"
  shows "MinGOGC (config t) \<le> NewGOGC d \<and> NewGOGC d \<le> MaxGOGC (config t)
         \<and> gcPercent (snd (applyTuningDecision t1 d rt)) = NewGOGC d
         \<and> lastGOGC (fst (applyTuningDecision t1 d rt)) = NewGOGC d"
proof -
  from validateConfig_bounds [OF valid]
  have b: "10 \<le> MinGOGC (config t)" "MinGOGC (config t) \<le> MaxGOGC (config t)"
    by simp_all
  from makeTuningDecision_Some(4) [OF dec] ensureBounds_range [OF b(2)]
  have r: "MinGOGC (config t) \<le> NewGOGC d" "NewGOGC d \<le> MaxGOGC (config t)"
    by simp_all
  with b have "\<not> NewGOGC d < 0"
    by simp
  then have "gcPercent (snd (applyTuningDecision t1 d rt)) = NewGOGC d"
    "lastGOGC (fst (applyTuningDecision t1 d rt)) = NewGOGC d"
    by (simp_all add: applyTuningDecision_def SetGCPercent_def Let_def)
  with r show ?thesis
    by simp
qed

theorem emitted_decision_within_bounds_witness:
  "validateConfig (config youngTuner) = None
   \<and> makeTuningDecision conv_amd64 youngTuner 0 0 (busySample 795)
       = (Some (busyDecision 795 800 0.63), youngTuner)
   \<and> MinGOGC (config youngTuner) = 50 \<and> MaxGOGC (config youngTuner) = 800
   \<and> 50 \<le> NewGOGC (busyDecision 795 800 0.63) \<and> NewGOGC (busyDecision 795 800 0.63) \<le> 800
   \<and> gcPercent (snd (applyTuningDecision youngTuner (busyDecision 795 800 0.63)
                        \<lparr> gcPercent = 795 \<rparr>)) = 800"
  using emitted_decision_within_bounds [OF youngTuner_valid decision_at_795 [of conv_amd64],
      where rt = "\<lparr> gcPercent = 795 \<rparr>"]
    youngTuner_valid decision_at_795 [of conv_amd64]
  by (simp add: fixture_defs)

subsection \<open>The change of one decision\<close>

lemma abs_go_cases:
  assumes "in_int64 x" "10 \<le> abs_go x"
  shows "abs_go x = \<bar>x\<bar> \<and> - (2 ^ 63) < x"
proof (cases "x = - (2 ^ 63)")
  case True
  then have "abs_go x = - (2 ^ 63)"
    by (simp add: abs_go_def wrap64_def)
  with assms show ?thesis
    by simp
next
  case False
  with assms(1) have "in_int64 (- x)"
    by (simp add: in_int64_def)
  then show ?thesis
    using False assms(1) by (simp add: abs_go_def wrap64_id in_int64_def)
qed

text \<open>The change computed from a target in range and a current ratio between 10 and 2000.\<close>

lemma change_cases:
  assumes "in_int64 t" "10 \<le> c" "c \<le> 2000"
  shows "wrap64 (t - c) = t - c \<and> - (2 ^ 63) \<le> t - c
       \<or> wrap64 (t - c) = t - c + 2 ^ 64 \<and> t - c < - (2 ^ 63)"
proof (cases "- (2 ^ 63) \<le> t - c")
  case True
  with assms have "in_int64 (t - c)"
    by (simp add: in_int64_def)
  with True show ?thesis
    by (simp add: wrap64_id)
next
  case False
  with assms have "- (2 ^ 63) - 2 ^ 64 \<le> t - c" "t - c < - (2 ^ 63)"
    by (simp_all add: in_int64_def)
  then show ?thesis
    using wrap64_below [of "t - c"] by simp
qed

lemma plus_limit_cases:
  assumes "10 \<le> c" "c \<le> 2000" "0 \<le> m" "m < 2 ^ 63"
  shows "wrap64 (c + m) = c + m \<or> wrap64 (c + m) < 0 \<and> 2 ^ 63 \<le> c + m"
proof (cases "c + m < 2 ^ 63")
  case True
  with assms have "in_int64 (c + m)"
    by (simp add: in_int64_def)
  then show ?thesis
    by (simp add: wrap64_id)
next
  case False
  with assms have "2 ^ 63 \<le> c + m" "c + m < 2 ^ 63 + 2 ^ 64" "c + m < 2 ^ 64"
    by simp_all
  then show ?thesis
    using wrap64_above [of "c + m"] by simp
qed

lemma minus_limit_id:
  assumes "10 \<le> c" "c \<le> 2000" "0 \<le> m" "m < 2 ^ 63"
  shows "wrap64 (c - m) = c - m"
proof -
  from assms have "in_int64 (c - m)"
    by (simp add: in_int64_def)
  then show ?thesis
    by (rule wrap64_id)
qed

text \<open>
  What the limit and the bounds make of a target \<open>t\<close> that passed the minimum-change
  gate, for a current ratio \<open>c\<close>: the three possible results.
\<close>

lemma limited_target_cases:
  assumes t: "in_int64 t"
    and c: "10 \<le> c" "c \<le> 2000"
    and lo: "10 \<le> MinGOGC cfg" "MinGOGC cfg \<le> c" "MinGOGC cfg \<le> MaxGOGC cfg"
    and m: "0 \<le> MaxChangePerInterval cfg"
    and big: "10 \<le> abs_go (wrap64 (t - c))"
  shows "(\<exists>x. ensureBounds cfg (limitChange cfg c (wrap64 (t - c)) t) = ensureBounds cfg x
              \<and> 10 \<le> \<bar>x - c\<bar> \<and> \<bar>x - c\<bar> \<le> MaxChangePerInterval cfg)
       \<or> (\<exists>x. ensureBounds cfg (limitChange cfg c (wrap64 (t - c)) t) = ensureBounds cfg x
              \<and> MaxChangePerInterval cfg < 10 \<and> \<bar>x - c\<bar> = MaxChangePerInterval cfg)
       \<or> (ensureBounds cfg (limitChange cfg c (wrap64 (t - c)) t) = MinGOGC cfg
           \<and> 2 ^ 62 \<le> MaxChangePerInterval cfg)"
proof -
  define d where "d = wrap64 (t - c)"
  define M where "M = MaxChangePerInterval cfg"
  have dr: "in_int64 d"
    unfolding d_def by (rule wrap64_range)
  from abs_go_cases [OF dr] big have a: "abs_go d = \<bar>d\<bar>" "- (2 ^ 63) < d"
    by (simp_all add: d_def)
  have d10: "10 \<le> \<bar>d\<bar>"
    using big a by (simp add: d_def)
  have dlt: "\<bar>d\<bar> < 2 ^ 63"
    using dr a(2) by (simp add: in_int64_def)
  from change_cases [OF t c]
  have dc: "d = t - c \<and> - (2 ^ 63) \<le> t - c \<or> d = t - c + 2 ^ 64 \<and> t - c < - (2 ^ 63)"
    by (simp add: d_def)
  have tr: "- (2 ^ 63) \<le> t"
    using t by (simp add: in_int64_def)
  have M0: "0 \<le> M"
    using m by (simp add: M_def)
  have "(\<exists>x. ensureBounds cfg (limitChange cfg c d t) = ensureBounds cfg x
              \<and> 10 \<le> \<bar>x - c\<bar> \<and> \<bar>x - c\<bar> \<le> M)
       \<or> (\<exists>x. ensureBounds cfg (limitChange cfg c d t) = ensureBounds cfg x
              \<and> M < 10 \<and> \<bar>x - c\<bar> = M)
       \<or> (ensureBounds cfg (limitChange cfg c d t) = MinGOGC cfg \<and> 2 ^ 62 \<le> M)"
  proof (cases "\<bar>d\<bar> > M")
    case True
    then have Mlt: "M < 2 ^ 63"
      using dlt by simp
    show ?thesis
    proof (cases "d > 0")
      case True
      have l: "limitChange cfg c d t = wrap64 (c + M)"
        using \<open>\<bar>d\<bar> > M\<close> True a by (simp add: limitChange_def M_def)
      from plus_limit_cases [OF c M0 Mlt]
      show ?thesis
      proof
        assume "wrap64 (c + M) = c + M"
        with l M0 have "ensureBounds cfg (limitChange cfg c d t) = ensureBounds cfg (c + M)"
          "\<bar>(c + M) - c\<bar> = M"
          by simp_all
        then show ?thesis
          by (cases "M < 10") fastforce+
      next
        assume w: "wrap64 (c + M) < 0 \<and> 2 ^ 63 \<le> c + M"
        with l lo have "ensureBounds cfg (limitChange cfg c d t) = MinGOGC cfg"
          by (simp add: ensureBounds_def Let_def)
        moreover from w c have "2 ^ 62 \<le> M"
          by simp
        ultimately show ?thesis
          by simp
      qed
    next
      case False
      have l: "limitChange cfg c d t = c - M"
        using \<open>\<bar>d\<bar> > M\<close> False a minus_limit_id [OF c M0 Mlt]
        by (simp add: limitChange_def M_def)
      with M0 have "ensureBounds cfg (limitChange cfg c d t) = ensureBounds cfg (c - M)"
        "\<bar>(c - M) - c\<bar> = M"
        by simp_all
      then show ?thesis
        by (cases "M < 10") fastforce+
    qed
  next
    case False
    then have l: "limitChange cfg c d t = t"
      using a by (simp add: limitChange_def M_def)
    from dc show ?thesis
    proof
      assume "d = t - c \<and> - (2 ^ 63) \<le> t - c"
      with l d10 False have "ensureBounds cfg (limitChange cfg c d t) = ensureBounds cfg t"
        "10 \<le> \<bar>t - c\<bar>" "\<bar>t - c\<bar> \<le> M"
        by simp_all
      then show ?thesis
        by blast
    next
      assume w: "d = t - c + 2 ^ 64 \<and> t - c < - (2 ^ 63)"
      with c lo have "t < MinGOGC cfg"
        by simp
      with l lo have "ensureBounds cfg (limitChange cfg c d t) = MinGOGC cfg"
        by (simp add: ensureBounds_def Let_def)
      moreover from w c tr False have "2 ^ 62 \<le> M"
        by simp
      ultimately show ?thesis
        by simp
    qed
  qed
  then show ?thesis
    by (simp add: d_def M_def)
qed

lemma ensureBounds_closer:
  "MinGOGC cfg \<le> c \<Longrightarrow> c \<le> MaxGOGC cfg \<Longrightarrow> \<bar>ensureBounds cfg x - c\<bar> \<le> \<bar>x - c\<bar>"
  by (simp add: ensureBounds_def Let_def)

lemma ensureBounds_far:
  "MinGOGC cfg + 10 \<le> c \<Longrightarrow> c + 10 \<le> MaxGOGC cfg \<Longrightarrow> 10 \<le> \<bar>x - c\<bar> \<Longrightarrow>
     10 \<le> \<bar>ensureBounds cfg x - c\<bar>"
  by (simp add: ensureBounds_def Let_def)

text \<open>
  Claim C2, as amended: for every decision that \<open>makeTuningDecision\<close> returns, the
  target that the control law computed differs from the current ratio by at least 10
  (the gate comes before the limit and the bounds). The returned change
  \<open>|NewGOGC - OldGOGC|\<close> is at least 10 when, in addition, the configuration is valid,
  \<open>MaxChangePerInterval\<close> is at least 10 and the current ratio is at least 10 away from
  both bounds. \<open>OldGOGC\<close> is the current ratio of the sample.
\<close>

theorem emitted_change_at_least_ten:
  assumes dec: "makeTuningDecision conv t nowGuard nowDecision metrics = (Some d, t1)"
  shows "10 \<le> abs_go (wrap64 (calculateTargetGOGC conv t metrics - OldGOGC d))
       \<and> (validateConfig (config t) = None \<and> 10 \<le> MaxChangePerInterval (config t)
            \<and> MinGOGC (config t) + 10 \<le> OldGOGC d \<and> OldGOGC d + 10 \<le> MaxGOGC (config t)
          \<longrightarrow> 10 \<le> \<bar>NewGOGC d - OldGOGC d\<bar>)"
proof (intro conjI impI)
  show "10 \<le> abs_go (wrap64 (calculateTargetGOGC conv t metrics - OldGOGC d))"
    using makeTuningDecision_Some(2,3) [OF dec] by simp
next
  define c where "c = CurrentGOGC metrics"
  define cfg where "cfg = config t"
  assume h: "validateConfig (config t) = None \<and> 10 \<le> MaxChangePerInterval (config t)
            \<and> MinGOGC (config t) + 10 \<le> OldGOGC d \<and> OldGOGC d + 10 \<le> MaxGOGC (config t)"
  then have valid: "validateConfig (config t) = None"
    by simp
  have o: "OldGOGC d = c"
    unfolding c_def by (rule makeTuningDecision_Some(2) [OF dec])
  from validateConfig_bounds [OF valid] h o
  have b: "10 \<le> MinGOGC cfg" "MaxGOGC cfg \<le> 2000" "MinGOGC cfg + 10 \<le> c"
    "c + 10 \<le> MaxGOGC cfg" "10 \<le> MaxChangePerInterval cfg"
    by (simp_all add: cfg_def)
  then have c: "10 \<le> c" "c \<le> 2000" "MinGOGC cfg \<le> c" "MinGOGC cfg \<le> MaxGOGC cfg"
    "0 \<le> MaxChangePerInterval cfg"
    by simp_all
  have new: "NewGOGC d = ensureBounds cfg (limitChange cfg c
               (wrap64 (calculateTargetGOGC conv t metrics - c))
               (calculateTargetGOGC conv t metrics))"
    unfolding c_def cfg_def by (rule makeTuningDecision_Some(4) [OF dec])
  from makeTuningDecision_Some(3) [OF dec]
  have big: "10 \<le> abs_go (wrap64 (calculateTargetGOGC conv t metrics - c))"
    by (simp add: c_def)
  from limited_target_cases [OF calculateTargetGOGC_range c(1,2) b(1) c(3,4,5) big]
  have "10 \<le> \<bar>NewGOGC d - c\<bar>"
    unfolding new
  proof (elim disjE exE conjE)
    fix x
    assume "ensureBounds cfg (limitChange cfg c
              (wrap64 (calculateTargetGOGC conv t metrics - c))
              (calculateTargetGOGC conv t metrics)) = ensureBounds cfg x"
      and "10 \<le> \<bar>x - c\<bar>"
    with ensureBounds_far [OF b(3,4), of x]
    show "10 \<le> \<bar>ensureBounds cfg (limitChange cfg c
              (wrap64 (calculateTargetGOGC conv t metrics - c))
              (calculateTargetGOGC conv t metrics)) - c\<bar>"
      by simp
  next
    assume "MaxChangePerInterval cfg < 10"
    with b(5) show "10 \<le> \<bar>ensureBounds cfg (limitChange cfg c
              (wrap64 (calculateTargetGOGC conv t metrics - c))
              (calculateTargetGOGC conv t metrics)) - c\<bar>"
      by simp
  next
    assume "ensureBounds cfg (limitChange cfg c
              (wrap64 (calculateTargetGOGC conv t metrics - c))
              (calculateTargetGOGC conv t metrics)) = MinGOGC cfg"
    with b show "10 \<le> \<bar>ensureBounds cfg (limitChange cfg c
              (wrap64 (calculateTargetGOGC conv t metrics - c))
              (calculateTargetGOGC conv t metrics)) - c\<bar>"
      by simp
  qed
  with o show "10 \<le> \<bar>NewGOGC d - OldGOGC d\<bar>"
    by simp
qed

text \<open>
  Claim C3, as amended: with a valid configuration, a non-negative
  \<open>MaxChangePerInterval\<close> and a current ratio inside \<open>[MinGOGC, MaxGOGC]\<close>, every decision
  that \<open>makeTuningDecision\<close> returns changes the ratio by at most
  \<open>MaxChangePerInterval\<close>. \<open>OldGOGC\<close> is the current ratio of the sample.
\<close>

theorem emitted_change_within_limit:
  assumes valid: "validateConfig (config t) = None"
    and m: "0 \<le> MaxChangePerInterval (config t)"
    and inside: "MinGOGC (config t) \<le> CurrentGOGC metrics"
      "CurrentGOGC metrics \<le> MaxGOGC (config t)"
    and dec: "makeTuningDecision conv t nowGuard nowDecision metrics = (Some d, t1)"
  shows "\<bar>NewGOGC d - OldGOGC d\<bar> \<le> MaxChangePerInterval (config t)"
proof -
  define c where "c = CurrentGOGC metrics"
  define cfg where "cfg = config t"
  from validateConfig_bounds [OF valid] inside m
  have b: "10 \<le> MinGOGC cfg" "MaxGOGC cfg \<le> 2000" "MinGOGC cfg \<le> c" "c \<le> MaxGOGC cfg"
    "0 \<le> MaxChangePerInterval cfg"
    by (simp_all add: cfg_def c_def)
  then have c: "10 \<le> c" "c \<le> 2000" "MinGOGC cfg \<le> MaxGOGC cfg"
    by simp_all
  have o: "OldGOGC d = c"
    unfolding c_def by (rule makeTuningDecision_Some(2) [OF dec])
  have new: "NewGOGC d = ensureBounds cfg (limitChange cfg c
               (wrap64 (calculateTargetGOGC conv t metrics - c))
               (calculateTargetGOGC conv t metrics))"
    unfolding c_def cfg_def by (rule makeTuningDecision_Some(4) [OF dec])
  from makeTuningDecision_Some(3) [OF dec]
  have big: "10 \<le> abs_go (wrap64 (calculateTargetGOGC conv t metrics - c))"
    by (simp add: c_def)
  from limited_target_cases [OF calculateTargetGOGC_range c(1,2) b(1,3) c(3) b(5) big]
  have "\<bar>NewGOGC d - c\<bar> \<le> MaxChangePerInterval cfg"
    unfolding new
  proof (elim disjE exE conjE)
    fix x
    assume "ensureBounds cfg (limitChange cfg c
              (wrap64 (calculateTargetGOGC conv t metrics - c))
              (calculateTargetGOGC conv t metrics)) = ensureBounds cfg x"
      and "\<bar>x - c\<bar> \<le> MaxChangePerInterval cfg"
    with ensureBounds_closer [OF b(3,4), of x]
    show "\<bar>ensureBounds cfg (limitChange cfg c
              (wrap64 (calculateTargetGOGC conv t metrics - c))
              (calculateTargetGOGC conv t metrics)) - c\<bar> \<le> MaxChangePerInterval cfg"
      by simp
  next
    fix x
    assume "ensureBounds cfg (limitChange cfg c
              (wrap64 (calculateTargetGOGC conv t metrics - c))
              (calculateTargetGOGC conv t metrics)) = ensureBounds cfg x"
      and "\<bar>x - c\<bar> = MaxChangePerInterval cfg"
    with ensureBounds_closer [OF b(3,4), of x]
    show "\<bar>ensureBounds cfg (limitChange cfg c
              (wrap64 (calculateTargetGOGC conv t metrics - c))
              (calculateTargetGOGC conv t metrics)) - c\<bar> \<le> MaxChangePerInterval cfg"
      by simp
  next
    assume "ensureBounds cfg (limitChange cfg c
              (wrap64 (calculateTargetGOGC conv t metrics - c))
              (calculateTargetGOGC conv t metrics)) = MinGOGC cfg"
      and "2 ^ 62 \<le> MaxChangePerInterval cfg"
    with b show "\<bar>ensureBounds cfg (limitChange cfg c
              (wrap64 (calculateTargetGOGC conv t metrics - c))
              (calculateTargetGOGC conv t metrics)) - c\<bar> \<le> MaxChangePerInterval cfg"
      by simp
  qed
  with o show ?thesis
    by (simp add: cfg_def)
qed

theorem emitted_change_at_least_ten_witness:
  "makeTuningDecision conv_amd64 youngTuner 0 0 (busySample 100)
     = (Some (busyDecision 100 112 0.7), youngTuner)
   \<and> validateConfig (config youngTuner) = None
   \<and> 10 \<le> MaxChangePerInterval (config youngTuner)
   \<and> MinGOGC (config youngTuner) + 10 \<le> OldGOGC (busyDecision 100 112 0.7)
   \<and> OldGOGC (busyDecision 100 112 0.7) + 10 \<le> MaxGOGC (config youngTuner)
   \<and> 10 \<le> abs_go (wrap64 (calculateTargetGOGC conv_amd64 youngTuner (busySample 100)
                               - OldGOGC (busyDecision 100 112 0.7)))
   \<and> 10 \<le> \<bar>NewGOGC (busyDecision 100 112 0.7) - OldGOGC (busyDecision 100 112 0.7)\<bar>"
proof -
  have hyps: "validateConfig (config youngTuner) = None"
    "10 \<le> MaxChangePerInterval (config youngTuner)"
    "MinGOGC (config youngTuner) + 10 \<le> OldGOGC (busyDecision 100 112 0.7)"
    "OldGOGC (busyDecision 100 112 0.7) + 10 \<le> MaxGOGC (config youngTuner)"
    using youngTuner_valid by (simp_all add: fixture_defs)
  with emitted_change_at_least_ten [OF decision_at_100 [of conv_amd64]]
    decision_at_100 [of conv_amd64]
  show ?thesis
    by simp
qed

text \<open>
  Claim C2 as stated fails at the bound: from a current ratio of 795, five below the
  default \<open>MaxGOGC\<close> of 800, the target 890 passes the gate, is limited to 845 and then
  clamped to 800. The decision returned, and recorded by \<open>applyTuningDecision\<close> when
  the runtime's percentage is still 795, changes the ratio by 5.
\<close>

theorem clamp_shrinks_change_counterexample:
  "validateConfig (config youngTuner) = None
   \<and> makeTuningDecision conv_amd64 youngTuner 0 0 (busySample 795)
       = (Some (busyDecision 795 800 0.63), youngTuner)
   \<and> decisionHistory (fst (applyTuningDecision youngTuner (busyDecision 795 800 0.63)
                              \<lparr> gcPercent = 795 \<rparr>)) = [busyDecision 795 800 0.63]
   \<and> \<bar>NewGOGC (busyDecision 795 800 0.63) - OldGOGC (busyDecision 795 800 0.63)\<bar> = 5"
  using youngTuner_valid decision_at_795 [of conv_amd64]
  by (simp add: applyTuningDecision_def SetGCPercent_def Let_def fixture_defs)

theorem emitted_change_within_limit_witness:
  "validateConfig (config youngTuner) = None
   \<and> 0 \<le> MaxChangePerInterval (config youngTuner)
   \<and> MinGOGC (config youngTuner) \<le> CurrentGOGC (busySample 100)
   \<and> CurrentGOGC (busySample 100) \<le> MaxGOGC (config youngTuner)
   \<and> makeTuningDecision conv_amd64 youngTuner 0 0 (busySample 100)
       = (Some (busyDecision 100 112 0.7), youngTuner)
   \<and> \<bar>NewGOGC (busyDecision 100 112 0.7) - OldGOGC (busyDecision 100 112 0.7)\<bar>
       \<le> MaxChangePerInterval (config youngTuner)"
proof -
  have hyps: "0 \<le> MaxChangePerInterval (config youngTuner)"
    "MinGOGC (config youngTuner) \<le> CurrentGOGC (busySample 100)"
    "CurrentGOGC (busySample 100) \<le> MaxGOGC (config youngTuner)"
    by (simp_all add: fixture_defs)
  from emitted_change_within_limit [OF youngTuner_valid hyps decision_at_100 [of conv_amd64]]
    youngTuner_valid hyps decision_at_100 [of conv_amd64]
  show ?thesis
    by simp
qed

text \<open>
  Claim C3 as stated fails for a current ratio outside the bounds: from 1000, with the
  default bounds \<open>[50, 800]\<close> and limit 50, the target 1120 is limited to 1050 and then
  clamped to 800, a change of 200.
\<close>

theorem out_of_bounds_start_counterexample:
  "validateConfig (config youngTuner) = None
   \<and> MaxChangePerInterval (config youngTuner) = 50
   \<and> makeTuningDecision conv_amd64 youngTuner 0 0 (busySample 1000)
       = (Some (busyDecision 1000 800 0.63), youngTuner)
   \<and> \<bar>NewGOGC (busyDecision 1000 800 0.63) - OldGOGC (busyDecision 1000 800 0.63)\<bar> = 200"
  using youngTuner_valid decision_at_1000 [of conv_amd64]
  by (simp add: fixture_defs)

subsection \<open>Confidence\<close>

lemma confidence_values:
  assumes "f64_greater (MemoryPressure metrics) (Finite 0.95)
           \<or> f64_less (MemoryPressure metrics) (Finite 0.05)"
    and "length (metricsHistory t) < 5"
  shows "calculateConfidence t metrics
           \<in> {Finite 0.56, Finite 0.448, Finite 0.504, Finite 0.4032}"
  using assms by (auto simp: calculateConfidence_def Let_def)

text \<open>
  Claim C10, as amended: when the memory pressure is below 0.05 or above 0.95, both
  strictly (zero, the value without a container limit, is such a pressure), and the
  history holds fewer than 5 samples, the confidence is at most 0.56, hence below 0.6,
  and \<open>makeTuningDecision\<close> returns no decision, whatever the pause, the frequency and
  the current ratio are.
\<close>

theorem low_confidence_suppresses_decision:
  assumes "f64_greater (MemoryPressure metrics) (Finite 0.95)
           \<or> f64_less (MemoryPressure metrics) (Finite 0.05)"
    and "length (metricsHistory t) < 5"
  shows "f64_le (calculateConfidence t metrics) (Finite 0.56)
       \<and> f64_less (calculateConfidence t metrics) (Finite 0.6)
       \<and> fst (makeTuningDecision conv t nowGuard nowDecision metrics) = None"
proof -
  from confidence_values [OF assms]
  have c: "f64_le (calculateConfidence t metrics) (Finite 0.56)"
    "f64_less (calculateConfidence t metrics) (Finite 0.6)"
    by (auto simp: f64_le_def)
  from c(2) have "fst (makeTuningDecision conv t nowGuard nowDecision metrics) = None"
    by (simp add: makeTuningDecision_def Let_def)
  with c show ?thesis
    by simp
qed

theorem low_confidence_suppresses_decision_witness:
  "f64_less (MemoryPressure (sample (50 * Millisecond) 0 100)) (Finite 0.05)
   \<and> length (metricsHistory youngTuner) < 5
   \<and> calculateConfidence youngTuner (sample (50 * Millisecond) 0 100) = Finite 0.56
   \<and> f64_less (calculateConfidence youngTuner (sample (50 * Millisecond) 0 100)) (Finite 0.6)
   \<and> fst (makeTuningDecision conv_amd64 youngTuner 0 0 (sample (50 * Millisecond) 0 100)) = None"
proof -
  have hyps: "f64_less (MemoryPressure (sample (50 * Millisecond) 0 100)) (Finite 0.05)"
    "length (metricsHistory youngTuner) < 5"
    by (simp_all add: fixture_defs)
  have conf: "calculateConfidence youngTuner (sample (50 * Millisecond) 0 100) = Finite 0.56"
    by (simp add: calculateConfidence_def Let_def wrap64_def fixture_defs f64_defs)
  from low_confidence_suppresses_decision [OF disjI2 [OF hyps(1)] hyps(2),
      of conv_amd64 0 0] hyps conf
  show ?thesis
    by simp
qed

text \<open>
  Claim C10 as stated fails at the end points of the interval: a pressure of exactly
  0.95 is outside the open interval \<open>(0.05, 0.95)\<close>, yet the comparison \<open>> 0.95\<close> is
  false for it, the confidence with two samples of history is 0.7 and a decision is
  returned.
\<close>

theorem pressure_endpoint_counterexample:
  "MemoryPressure (sample (100 * Millisecond) 0.95 100) = Finite 0.95
   \<and> \<not> ((0.05 :: real) < 0.95 \<and> (0.95 :: real) < 0.95)
   \<and> length (metricsHistory youngTuner) < 5
   \<and> calculateConfidence youngTuner (sample (100 * Millisecond) 0.95 100) = Finite 0.7
   \<and> fst (makeTuningDecision conv_amd64 youngTuner 0 0 (sample (100 * Millisecond) 0.95 100))
       = Some \<lparr> OldGOGC = 100, NewGOGC = 126, Confidence = Finite 0.7,
                DecisionTimestamp = 0,
                DecisionMetrics = sample (100 * Millisecond) 0.95 100 \<rparr>"
proof -
  have target: "calculateTargetGOGC conv_amd64 youngTuner (sample (100 * Millisecond) 0.95 100)
                  = 126"
    by (simp add: law_defs f64_defs time_defs fixture_defs Let_def)
  have conf: "calculateConfidence youngTuner (sample (100 * Millisecond) 0.95 100) = Finite 0.7"
    by (simp add: calculateConfidence_def Let_def wrap64_def fixture_defs f64_defs)
  have "fst (makeTuningDecision conv_amd64 youngTuner 0 0 (sample (100 * Millisecond) 0.95 100))
       = Some \<lparr> OldGOGC = 100, NewGOGC = 126, Confidence = Finite 0.7,
                DecisionTimestamp = 0,
                DecisionMetrics = sample (100 * Millisecond) 0.95 100 \<rparr>"
    unfolding makeTuningDecision_def target conf
    by (simp add: Let_def shouldSkipDueToOscillation_def abs_go_def wrap64_def limitChange_def
        ensureBounds_def fixture_defs f64_defs)
  with conf show ?thesis
    by (simp add: fixture_defs)
qed

subsection \<open>Histories\<close>














end
